theory Spec2Isabelle
  imports Complex_Main "HOL-Library.AList" "HOL-Library.Log_Nat"
begin

section \<open>Data model of \<^verbatim>\<open>freqtrade/optimize/hyperopt.py\<close>\<close>

text \<open>
  Python exceptions are values. Only the exception classes that the modelled functions
  can raise are listed.
\<close>

datatype py_error =
    ValueError
  | KeyError
  | IndexError
  | AttributeError
  | OverflowError
  | ZeroDivisionError
  | OperationalException

section \<open>Python numbers\<close>

text \<open>
  A finite Python float is a double: a pair \<^verbatim>\<open>(m, k)\<close> that stands for
  \<^verbatim>\<open>m * 2 ** k\<close>, with a mantissa below \<^verbatim>\<open>2 ** 53\<close> in absolute value, an exponent
  of -1074 at least and a value below \<^verbatim>\<open>2 ** 1024\<close>. The operations below read a pair
  as the number it stands for and round their exact result to the nearest double, ties to
  the even mantissa, as the machine does. An infinity, which arises only by overflow, is
  \<^verbatim>\<open>None\<close>; NaN and the sign of zero are not modelled. A number that the code takes
  from the configuration or from a dimension is a Python \<^verbatim>\<open>int\<close> or a float.
\<close>

type_synonym double = "int \<times> int"

datatype pynum = PyInt int | PyFloat double

text \<open>
  \<^verbatim>\<open>double_exponent a b\<close> is the exponent \<^verbatim>\<open>e\<close> of the quotient of two positive
  integers, \<^verbatim>\<open>2 ** e <= a / b < 2 ** (e + 1)\<close>; \<^verbatim>\<open>bitlen\<close> is \<^verbatim>\<open>int.bit_length\<close>.
  \<^verbatim>\<open>round_half_even num den\<close> is the integer nearest to \<^verbatim>\<open>num / den\<close>, the even one
  on a tie. The double nearest to \<^verbatim>\<open>a / b\<close> has its unit in the last place at
  \<^verbatim>\<open>2 ** (e - 52)\<close>, and at \<^verbatim>\<open>2 ** -1074\<close> at least; it overflows when it is
  \<^verbatim>\<open>2 ** 1024\<close> or more.
\<close>

definition double_exponent :: "int \<Rightarrow> int \<Rightarrow> int" where
  "double_exponent a b = (if a \<ge> b then bitlen (a div b) - 1 else - bitlen ((b - 1) div a))"

definition round_half_even :: "int \<Rightarrow> int \<Rightarrow> int" where
  "round_half_even num den =
     (let f = num div den; r = num mod den
      in if 2 * r < den then f
         else if 2 * r > den then f + 1
         else if even f then f else f + 1)"

definition nearest_double :: "int \<Rightarrow> int \<Rightarrow> double" where
  "nearest_double a b =
     (let k = max (double_exponent a b - 52) (- 1074);
          m = (if k \<ge> 0 then round_half_even a (b * 2 ^ nat k)
               else round_half_even (a * 2 ^ nat (- k)) b)
      in (m, k))"

definition overflows :: "double \<Rightarrow> bool" where
  "overflows x = (case x of (m, k) \<Rightarrow> k \<ge> 0 \<and> m * 2 ^ nat k \<ge> 2 ^ 1024)"

text \<open>The double nearest to the number \<^verbatim>\<open>n * 2 ** k\<close>, or \<^verbatim>\<open>None\<close> on overflow.\<close>

definition round_dyadic :: "int \<Rightarrow> int \<Rightarrow> double option" where
  "round_dyadic n k =
     (if n = 0 then Some (0, 0)
      else
        (let x = (if k \<ge> 0 then nearest_double (\<bar>n\<bar> * 2 ^ nat k) 1
                  else nearest_double \<bar>n\<bar> (2 ^ nat (- k)))
         in if overflows x then None else Some (sgn n * fst x, snd x)))"

text \<open>
  \<^verbatim>\<open>float(n)\<close>, as in mixed arithmetic of an \<^verbatim>\<open>int\<close> and a float: an integer too
  large for a double raises \<^verbatim>\<open>OverflowError\<close>. The product and the difference of two
  floats overflow to an infinity instead.
\<close>

definition float_of_int :: "int \<Rightarrow> py_error + double" where
  "float_of_int n = (case round_dyadic n 0 of None \<Rightarrow> Inl OverflowError | Some d \<Rightarrow> Inr d)"

definition float_mul :: "double \<Rightarrow> double \<Rightarrow> double option" where
  "float_mul x y = round_dyadic (fst x * fst y) (snd x + snd y)"

definition float_sub :: "double \<Rightarrow> double \<Rightarrow> double option" where
  "float_sub x y =
     (let k = min (snd x) (snd y)
      in round_dyadic (fst x * 2 ^ nat (snd x - k) - fst y * 2 ^ nat (snd y - k)) k)"

text \<open>\<^verbatim>\<open>int(x)\<close> on a float: truncation towards zero; an infinity raises
  \<^verbatim>\<open>OverflowError\<close>.\<close>

definition int_of_double :: "double \<Rightarrow> int" where
  "int_of_double x =
     (case x of (m, k) \<Rightarrow>
        if k \<ge> 0 then m * 2 ^ nat k else sgn m * (\<bar>m\<bar> div 2 ^ nat (- k)))"

definition int_of_float :: "double option \<Rightarrow> py_error + int" where
  "int_of_float x = (case x of None \<Rightarrow> Inl OverflowError | Some d \<Rightarrow> Inr (int_of_double d))"

text \<open>\<^verbatim>\<open>max(1, x)\<close>: \<^verbatim>\<open>x\<close> if it is greater than 1, else the integer 1.\<close>

definition double_gt_one :: "double \<Rightarrow> bool" where
  "double_gt_one x = (case x of (m, k) \<Rightarrow> if k \<ge> 0 then m * 2 ^ nat k > 1 else m > 2 ^ nat (- k))"

definition py_max1 :: "pynum \<Rightarrow> pynum" where
  "py_max1 x =
     (case x of
        PyInt n \<Rightarrow> PyInt (max 1 n)
      | PyFloat f \<Rightarrow> if double_gt_one f then PyFloat f else PyInt 1)"

text \<open>\<^verbatim>\<open>int(n * x)\<close> for an integer \<^verbatim>\<open>n\<close>: exact for an integer \<^verbatim>\<open>x\<close>, the
  truncated float product for a float.\<close>

definition int_times :: "int \<Rightarrow> pynum \<Rightarrow> py_error + int" where
  "int_times n x =
     (case x of
        PyInt j \<Rightarrow> Inr (n * j)
      | PyFloat f \<Rightarrow>
          (case float_of_int n of
             Inl e \<Rightarrow> Inl e
           | Inr d \<Rightarrow> int_of_float (float_mul d f)))"

text \<open>\<^verbatim>\<open>int(high - low)\<close>: exact for two integers, the truncated float difference
  otherwise.\<close>

definition to_float :: "pynum \<Rightarrow> py_error + double" where
  "to_float x = (case x of PyInt n \<Rightarrow> float_of_int n | PyFloat d \<Rightarrow> Inr d)"

definition int_of_diff :: "pynum \<Rightarrow> pynum \<Rightarrow> py_error + int" where
  "int_of_diff hi lo =
     (case (hi, lo) of
        (PyInt a, PyInt b) \<Rightarrow> Inr (a - b)
      | _ \<Rightarrow>
          (case to_float hi of
             Inl e \<Rightarrow> Inl e
           | Inr x \<Rightarrow>
               (case to_float lo of
                  Inl e \<Rightarrow> Inl e
                | Inr y \<Rightarrow> int_of_float (float_sub x y))))"

section \<open>Points, dimensions and results\<close>

text \<open>
  A parameter value of a candidate point: an integer, a float (compared for equality
  only, and given as the real number it stands for) or a categorical value. A candidate point is the tuple of its values in
  search-space order.
\<close>

datatype pval = PInt int | PReal real | PCat string

type_synonym point = "pval list"

text \<open>
  The three kinds of \<^verbatim>\<open>skopt.space.Dimension\<close> the code distinguishes by
  \<^verbatim>\<open>type(d).__name__\<close>. The bounds of a real dimension are kept as they were given,
  integers or floats. \<^verbatim>\<open>bounds\<close> of a categorical dimension is the tuple of its
  categories.
\<close>

datatype dimension =
    Integer (name: string) (ilow: int) (ihigh: int)
  | Real (name: string) (rlow: pynum) (rhigh: pynum)
  | Categorical (name: string) (bounds: "pval list")

text \<open>
  \<^verbatim>\<open>VOID_LOSS = iinfo(int32).max\<close>. Losses are Python floats; they are modelled
  as real numbers, since the code only compares them and takes their maximum.
\<close>

definition VOID_LOSS :: real where
  "VOID_LOSS = 2147483647"

text \<open>
  A Python \<^verbatim>\<open>dict\<close> keeps insertion order and one value per key: it is an association
  list with distinct keys, and \<^verbatim>\<open>d[k] = v\<close> is \<^const>\<open>AList.update\<close> (overwrite in
  place, or append).
\<close>

type_synonym ('k, 'v) pydict = "('k \<times> 'v) list"

text \<open>
  The result dictionary of one evaluation (\<^verbatim>\<open>_get_results_dict\<close>), with the keys
  that are added later: \<^verbatim>\<open>is_initial_point\<close> and \<^verbatim>\<open>random_state\<close> (written by
  \<^verbatim>\<open>parallel_objective\<close> or \<^verbatim>\<open>opt_results\<close> before any read), and \<^verbatim>\<open>is_best\<close>
  and \<^verbatim>\<open>current_epoch\<close> (absent, \<^const>\<open>None\<close>, until \<^verbatim>\<open>log_results\<close> writes
  them). The reporting-only keys (\<^verbatim>\<open>params_details\<close>, \<^verbatim>\<open>results_metrics\<close>,
  \<^verbatim>\<open>results_explanation\<close>) are never read or written by the functions below and are
  left out.
\<close>

record trial =
  loss :: real
  params_dict :: "(string, pval) pydict"
  total_profit :: real
  is_initial_point :: bool
  random_state :: int
  is_best :: "bool option"
  current_epoch :: "int option"

text \<open>
  The attributes of a \<^verbatim>\<open>skopt.Optimizer\<close> that the code reads or writes: the observed
  points and losses, the fitted models (opaque, \<^typ>\<open>'m\<close>), the random generator
  (opaque, \<^typ>\<open>'g\<close>), the counter of initial points, and the three attributes the
  code attaches itself: \<^verbatim>\<open>void_loss\<close>, \<^verbatim>\<open>void\<close> (\<^verbatim>\<open>False\<close> is 0, the failure
  mark is -1) and \<^verbatim>\<open>rs\<close>.
\<close>

record ('m, 'g) optimizer =
  Xi :: "point list"
  yi :: "real list"
  models :: "'m list"
  rng :: 'g
  n_initial_points_left :: int
  void_loss :: real
  void :: int
  rs :: int

text \<open>
  Result dictionaries and lists of them are mutable objects that several names can
  refer to, so they live in a store: \<^verbatim>\<open>dict_of\<close> gives the dictionary at an
  address, \<^verbatim>\<open>list_of\<close> the element addresses of the list object at an address, and
  \<^verbatim>\<open>next_list\<close> is the address the next new list object gets.
\<close>

type_synonym addr = nat

record store =
  dict_of :: "addr \<Rightarrow> trial"
  list_of :: "addr \<Rightarrow> addr list"
  next_list :: addr

section \<open>Pure helpers\<close>

text \<open>\<^verbatim>\<open>Hyperopt._get_params_dict\<close>: the dict comprehension inserts the pairs of
  \<^verbatim>\<open>zip(dimensions, raw_params)\<close> from left to right.\<close>

definition get_params_dict :: "dimension list \<Rightarrow> pval list \<Rightarrow> py_error + (string, pval) pydict" where
  "get_params_dict dimensions raw_params =
     (if length raw_params \<noteq> length dimensions then Inl ValueError
      else Inr (fold (\<lambda>(d, v) acc. AList.update (name d) v acc) (zip dimensions raw_params) []))"

text \<open>\<^verbatim>\<open>Hyperopt.params_Xi\<close>: \<^verbatim>\<open>list(v["params_dict"].values())\<close>.\<close>

definition params_Xi :: "trial \<Rightarrow> point" where
  "params_Xi v = map snd (params_dict v)"

text \<open>\<^verbatim>\<open>Hyperopt.is_best_loss\<close>.\<close>

definition is_best_loss :: "trial \<Rightarrow> real \<Rightarrow> bool" where
  "is_best_loss results current_best_loss = (loss results < current_best_loss)"

section \<open>VOID filtering\<close>

text \<open>
  \<^verbatim>\<open>max(opt.yi)\<close> on a non-empty list. No equation is given for the empty list
  (Python raises there): the code never calls it on one, since the first branch of
  \<^verbatim>\<open>filter_void_losses\<close> takes that case when the sentinel is unset.
\<close>

fun max_list :: "real list \<Rightarrow> real" where
  "max_list (y # ys) = fold max ys y"

text \<open>The loop \<^verbatim>\<open>for k, v in enumerate(vals): if v["loss"] == VOID_LOSS:
  vals[k]["loss"] = opt.void_loss\<close>, over the element addresses of \<^verbatim>\<open>vals\<close>: it writes
  the dictionary objects in the store.\<close>

fun default_bad_losses :: "real \<Rightarrow> addr list \<Rightarrow> store \<Rightarrow> store" where
  "default_bad_losses vl [] h = h"
| "default_bad_losses vl (a # as) h =
     default_bad_losses vl as
       (if loss (dict_of h a) = VOID_LOSS
        then h\<lparr>dict_of := (dict_of h)(a := (dict_of h a)\<lparr>loss := vl\<rparr>)\<rparr>
        else h)"

text \<open>
  \<^verbatim>\<open>Hyperopt.filter_void_losses(vals, opt)\<close>. \<^verbatim>\<open>vals\<close> is the address of a list
  object. The result is the address of the returned list, the optimizer (its
  \<^verbatim>\<open>void_loss\<close> may be set) and the store. In the first branch
  \<^verbatim>\<open>list(filter(...))\<close> builds a new list object of the kept elements; in the second
  the returned name is \<^verbatim>\<open>vals\<close> itself.
\<close>

definition filter_void_losses ::
  "addr \<Rightarrow> ('m, 'g) optimizer \<Rightarrow> store \<Rightarrow> addr \<times> ('m, 'g) optimizer \<times> store" where
  "filter_void_losses vals opt h =
     (if void_loss opt = VOID_LOSS \<and> length (yi opt) < 1 then
        (let void_filtered = next_list h;
             kept = filter (\<lambda>a. loss (dict_of h a) \<noteq> VOID_LOSS) (list_of h vals)
         in (void_filtered, opt,
             h\<lparr>list_of := (list_of h)(void_filtered := kept), next_list := Suc (next_list h)\<rparr>))
      else
        (let opt' = (if void_loss opt = VOID_LOSS then opt\<lparr>void_loss := max_list (yi opt)\<rparr> else opt)
         in (vals, opt', default_bad_losses (void_loss opt') (list_of h vals) h)))"

text \<open>The dictionaries a list object holds, read through the store.\<close>

definition read_list :: "store \<Rightarrow> addr \<Rightarrow> trial list" where
  "read_list h l = map (dict_of h) (list_of h l)"

section \<open>The optimizer library and the coordinator's state\<close>

text \<open>
  The surrogate optimizer (\<^verbatim>\<open>skopt.Optimizer\<close>) is an external black box. Its
  methods are parameters of the model, one field each:
  \<^verbatim>\<open>opt.ask(strategy=s)\<close>, \<^verbatim>\<open>opt.ask(n_points=n, strategy=s)\<close>,
  \<^verbatim>\<open>opt.tell(X, y, fit=b)\<close>, \<^verbatim>\<open>opt.update_next()\<close>,
  \<^verbatim>\<open>opt.copy(random_state=g)\<close> for a generator and for an integer seed,
  \<^verbatim>\<open>rng.randint(lo, hi)\<close>, \<^verbatim>\<open>rng.seed(n)\<close> and the constructor call of
  \<^verbatim>\<open>get_optimizer\<close>. Every theorem below that mentions them holds for all of them.
\<close>

record ('m, 'g) skopt =
  sk_ask :: "('m, 'g) optimizer \<Rightarrow> string \<Rightarrow> point \<times> ('m, 'g) optimizer"
  sk_ask_n :: "('m, 'g) optimizer \<Rightarrow> nat \<Rightarrow> string \<Rightarrow> point list \<times> ('m, 'g) optimizer"
  sk_tell :: "('m, 'g) optimizer \<Rightarrow> point list \<Rightarrow> real list \<Rightarrow> bool \<Rightarrow> ('m, 'g) optimizer"
  sk_update_next :: "('m, 'g) optimizer \<Rightarrow> ('m, 'g) optimizer"
  sk_copy :: "('m, 'g) optimizer \<Rightarrow> 'g \<Rightarrow> ('m, 'g) optimizer"
  sk_copy_seed :: "('m, 'g) optimizer \<Rightarrow> int \<Rightarrow> ('m, 'g) optimizer"
  sk_randint :: "'g \<Rightarrow> int \<Rightarrow> int \<Rightarrow> int \<times> 'g"
  sk_seed :: "'g \<Rightarrow> int \<Rightarrow> 'g"
  sk_new :: "dimension list \<Rightarrow> int \<Rightarrow> ('m, 'g) optimizer"

text \<open>
  The table \<^verbatim>\<open>backend.results_shared\<close> holds two kinds of entries under keys that can
  never be equal in Python (a tuple of parameter values, an integer random state): a
  point with its \<^verbatim>\<open>(loss, counter)\<close> pair, and a random state with the
  \<^verbatim>\<open>(Xi, yi)\<close> tuples found within the batch. They are kept as two dictionaries;
  \<^verbatim>\<open>len(results_shared)\<close> is the sum of their lengths.
\<close>

record shared_results =
  pts :: "(point, real \<times> int) pydict"
  by_rs :: "(int, point list \<times> real list) pydict"

text \<open>
  The attributes of \<^verbatim>\<open>Hyperopt\<close> and of the \<^verbatim>\<open>backend\<close> module that the modelled
  methods use, and the two pickle files (\<^const>\<open>None\<close>: nothing written yet).
  \<^verbatim>\<open>self.opt\<close>, \<^verbatim>\<open>self.Xi\<close>, \<^verbatim>\<open>self.yi\<close> and \<^verbatim>\<open>self.random_state\<close> carry the prefix
  \<^verbatim>\<open>self_\<close>; \<^verbatim>\<open>rngs\<close> is the list captured by the closure \<^verbatim>\<open>opt_empty_tuple\<close>;
  \<^verbatim>\<open>continue_filtered\<close> is \<^verbatim>\<open>config['hyperopt_continue_filtered']\<close>;
  \<^verbatim>\<open>lie_strat\<close> gives the strategy name of the n-th call of \<^verbatim>\<open>self.lie_strat()\<close>
  (the call may draw from Python's global random generator) and \<^verbatim>\<open>lie_calls\<close>
  counts the calls made. Trials are stored by value: after \<^verbatim>\<open>return_results\<close> no
  other name refers to the dictionaries of a batch.
\<close>

record ('m, 'g) hyperopt =
  n_jobs :: int
  n_points :: int
  ask_points :: "nat option"
  effort :: pynum
  total_epochs :: int
  max_epoch :: int
  max_epoch_reached :: bool
  min_epochs :: int
  search_space_size :: int
  current_best_loss :: real
  current_best_epoch :: int
  epochs_since_last_best :: "int list"
  avg_best_occurrence :: int
  num_epochs_saved :: nat
  trials :: "trial list"
  epochs :: "trial list"
  multi :: bool
  shared :: bool
  self_opt :: "('m, 'g) optimizer option"
  self_Xi :: "(int, point list) pydict"
  self_yi :: "(int, real list) pydict"
  rngs :: "int list"
  continue_filtered :: bool
  self_random_state :: int
  dimensions :: "dimension list"
  lie_strat :: "nat \<Rightarrow> string"
  lie_calls :: nat
  batch_results :: "addr list"
  results_list :: "addr list"
  optimizers :: "('m, 'g) optimizer list"
  results_batch :: "trial list list"
  results_shared :: shared_results
  results_file :: "trial list option"
  opts_file :: "('m, 'g) optimizer list option"

text \<open>\<^verbatim>\<open>self.epochs_limit = lambda: self.total_epochs or self.max_epoch\<close>.\<close>

definition epochs_limit :: "('m, 'g) hyperopt \<Rightarrow> int" where
  "epochs_limit s = (if total_epochs s \<noteq> 0 then total_epochs s else max_epoch s)"

text \<open>
  \<^verbatim>\<open>Hyperopt.update_max_epoch(val, current)\<close>. The result is the state and the
  exception raised, if any: \<^verbatim>\<open>int((...) * max(1, self.effort))\<close> raises
  \<^verbatim>\<open>OverflowError\<close> when the float product is infinite, after the three assignments
  before it.
\<close>

definition update_max_epoch ::
  "trial \<Rightarrow> int \<Rightarrow> ('m, 'g) hyperopt \<Rightarrow> ('m, 'g) hyperopt \<times> py_error option" where
  "update_max_epoch val current s =
     (if \<not> is_initial_point val then
        (let gaps = epochs_since_last_best s @ [current - current_best_epoch s];
             avg = sum_list gaps div int (length gaps);
             s1 = s\<lparr>epochs_since_last_best := gaps,
                     avg_best_occurrence := avg,
                     current_best_epoch := current\<rparr>
         in case int_times (current + avg + min_epochs s) (py_max1 (effort s)) of
              Inl e \<Rightarrow> (s1, Some e)
            | Inr m \<Rightarrow>
                (s1\<lparr>max_epoch := (if m > search_space_size s then search_space_size s else m)\<rparr>,
                 None))
      else (s, None))"

text \<open>\<^verbatim>\<open>Hyperopt.opt_clear\<close>: \<^verbatim>\<open>del opt.models[:], opt.Xi[:], opt.yi[:]\<close>.\<close>

definition opt_clear :: "('m, 'g) optimizer \<Rightarrow> ('m, 'g) optimizer" where
  "opt_clear opt = opt\<lparr>models := [], Xi := [], yi := []\<rparr>"

text \<open>
  \<^verbatim>\<open>Hyperopt.opt_rand(opt, rand, seed)\<close>. \<^verbatim>\<open>rand\<close> is \<^const>\<open>None\<close> when the
  argument is left out; \<^verbatim>\<open>not rand\<close> also holds for 0. The tuple assignment gives
  the copy the attributes \<^verbatim>\<open>void_loss\<close>, \<^verbatim>\<open>void\<close> and \<^verbatim>\<open>rs\<close> of the original.
  The upper bound of \<^verbatim>\<open>randint\<close> is \<^verbatim>\<open>VOID_LOSS\<close>, the integer 2147483647.
\<close>

definition opt_rand ::
  "('m, 'g) skopt \<Rightarrow> ('m, 'g) optimizer \<Rightarrow> int option \<Rightarrow> bool \<Rightarrow> ('m, 'g) optimizer" where
  "opt_rand sk opt rand seed =
     (let opt1 =
        (if seed then
           (let (r, g) = (case rand of
                            Some r \<Rightarrow> if r \<noteq> 0 then (r, rng opt) else sk_randint sk (rng opt) 0 2147483647
                          | None \<Rightarrow> sk_randint sk (rng opt) 0 2147483647)
            in opt\<lparr>rng := sk_seed sk g r\<rparr>)
         else opt)
      in (sk_copy sk opt1 (rng opt1))\<lparr>void_loss := void_loss opt1, void := void opt1, rs := rs opt1\<rparr>)"

section \<open>Persistence\<close>

text \<open>
  \<^verbatim>\<open>Hyperopt.save_opts\<close>. In multi mode the queue is drained, every optimizer cleared
  and put back. In single mode a copy replaces \<^verbatim>\<open>self.opt\<close> and the cleared original
  is dumped; \<^verbatim>\<open>opt_rand\<close> on \<^verbatim>\<open>None\<close> raises.
\<close>

definition save_opts :: "('m, 'g) skopt \<Rightarrow> ('m, 'g) hyperopt \<Rightarrow> ('m, 'g) hyperopt \<times> py_error option" where
  "save_opts sk s =
     (if multi s then
        (let opts = map opt_clear (optimizers s)
         in (s\<lparr>optimizers := opts, opts_file := Some opts\<rparr>, None))
      else
        (case self_opt s of
           None \<Rightarrow> (s, Some AttributeError)
         | Some o1 \<Rightarrow>
             (let c = opt_rand sk o1 None False
              in (s\<lparr>self_opt := Some c, opts_file := Some [opt_clear o1]\<rparr>, None))))"

text \<open>
  \<^verbatim>\<open>Hyperopt._save_results\<close>. It reads and dumps \<^verbatim>\<open>self.epochs\<close>, the list
  \<^verbatim>\<open>start\<close> loaded from the results file, not \<^verbatim>\<open>self.trials\<close>.
\<close>

definition save_results :: "('m, 'g) skopt \<Rightarrow> ('m, 'g) hyperopt \<Rightarrow> ('m, 'g) hyperopt \<times> py_error option" where
  "save_results sk s =
     (let num_epochs = length (epochs s)
      in if num_epochs > num_epochs_saved s then
           save_opts sk (s\<lparr>results_file := Some (epochs s), num_epochs_saved := num_epochs\<rparr>)
         else (s, None))"

section \<open>Tracking evaluated points\<close>

text \<open>
  The loop of \<^verbatim>\<open>track_points\<close>: \<^verbatim>\<open>self.Xi[rs].append(...)\<close>,
  \<^verbatim>\<open>self.yi[rs].append(...)\<close>. A missing key raises \<^verbatim>\<open>KeyError\<close>, which the
  handler for \<^verbatim>\<open>IndexError\<close> does not catch; the append to \<^verbatim>\<open>self.Xi\<close> made
  before a failing \<^verbatim>\<open>self.yi[rs]\<close> stays.
\<close>

fun track_loop :: "trial list \<Rightarrow> ('m, 'g) hyperopt \<Rightarrow> ('m, 'g) hyperopt \<times> py_error option" where
  "track_loop [] s = (s, None)"
| "track_loop (v # vs) s =
     (let r = random_state v in
      case map_of (self_Xi s) r of
        None \<Rightarrow> (s, Some KeyError)
      | Some xs \<Rightarrow>
          (let s1 = s\<lparr>self_Xi := AList.update r (xs @ [params_Xi v]) (self_Xi s)\<rparr> in
           case map_of (self_yi s1) r of
             None \<Rightarrow> (s1, Some KeyError)
           | Some ys \<Rightarrow> track_loop vs (s1\<lparr>self_yi := AList.update r (ys @ [loss v]) (self_yi s1)\<rparr>)))"

text \<open>\<^verbatim>\<open>Hyperopt.track_points(trials)\<close>; the argument is an empty list when it is
  left out or the given list is empty (\<^verbatim>\<open>not trials\<close>).\<close>

definition track_points :: "trial list \<Rightarrow> ('m, 'g) hyperopt \<Rightarrow> ('m, 'g) hyperopt \<times> py_error option" where
  "track_points ts s =
     (if ts = [] then
        (if length (trials s) > 0 then
           (if continue_filtered s then (s, Some ValueError)
            else track_loop (trials s) s)
         else (s, None))
      else track_loop ts s)"

text \<open>\<^verbatim>\<open>self.opt_empty_tuple()\<close>: \<^verbatim>\<open>{rs: ((), ()) for rs in rngs}\<close>, and
  \<^verbatim>\<open>dict.update\<close>.\<close>

definition dict_of_pairs :: "('k \<times> 'v) list \<Rightarrow> ('k, 'v) pydict" where
  "dict_of_pairs ps = fold (\<lambda>(k, v) d. AList.update k v d) ps []"

definition dict_update :: "('k, 'v) pydict \<Rightarrow> ('k, 'v) pydict \<Rightarrow> ('k, 'v) pydict" where
  "dict_update d e = fold (\<lambda>(k, v) d'. AList.update k v d') e d"

definition opt_empty_tuple :: "('m, 'g) hyperopt \<Rightarrow> (int, point list \<times> real list) pydict" where
  "opt_empty_tuple s = dict_of_pairs (map (\<lambda>r. (r, ([], []))) (rngs s))"

section \<open>Scoring a batch\<close>

text \<open>
  One iteration of the loop of \<^verbatim>\<open>log_results\<close>, for the i-th result (counted from 1)
  of the batch. \<^verbatim>\<open>print_results\<close> only prints and is left out. An exception of
  \<^verbatim>\<open>update_max_epoch\<close> leaves the iteration before the result is appended.
\<close>

definition log_step ::
  "nat \<Rightarrow> nat \<times> trial \<Rightarrow> ('m, 'g) hyperopt \<Rightarrow> ('m, 'g) hyperopt \<times> py_error option" where
  "log_step frame_start iv s =
     (let v = snd iv;
          best = is_best_loss v (current_best_loss s);
          current = int frame_start + int (fst iv);
          v' = v\<lparr>is_best := Some best, current_epoch := Some current\<rparr>
      in case (if best then update_max_epoch v' current (s\<lparr>current_best_loss := loss v'\<rparr>)
               else (s, None)) of
           (s1, Some e) \<Rightarrow> (s1, Some e)
         | (s1, None) \<Rightarrow> (s1\<lparr>trials := trials s1 @ [v']\<rparr>, None))"

text \<open>The loop over the enumerated batch; an exception ends it.\<close>

fun log_loop ::
  "nat \<Rightarrow> (nat \<times> trial) list \<Rightarrow> ('m, 'g) hyperopt \<Rightarrow> ('m, 'g) hyperopt \<times> py_error option" where
  "log_loop frame_start [] s = (s, None)"
| "log_loop frame_start (iv # ivs) s =
     (case log_step frame_start iv s of
        (s1, Some e) \<Rightarrow> (s1, Some e)
      | (s1, None) \<Rightarrow> log_loop frame_start ivs s1)"

text \<open>
  \<^verbatim>\<open>Hyperopt.log_results(batch_results, frame_start, total_epochs)\<close>. The result is
  the state and either the exception that ended the call or the returned count.
  \<^verbatim>\<open>frame_start\<close> is a count of trials (\<^verbatim>\<open>epochs_so_far\<close> at the call site).
\<close>

definition log_results ::
  "('m, 'g) skopt \<Rightarrow> trial list \<Rightarrow> nat \<Rightarrow> int \<Rightarrow> ('m, 'g) hyperopt \<Rightarrow> ('m, 'g) hyperopt \<times> (py_error + nat)" where
  "log_results sk batch_res frame_start total_ep s =
     (let i = length batch_res;
          current = (if i = 0 then int frame_start + 1 else int frame_start + int i)
      in case log_loop frame_start (zip [1..<Suc i] batch_res) s of
           (s1, Some e) \<Rightarrow> (s1, Inl e)
         | (s1, None) \<Rightarrow>
             (case save_results sk s1 of
                (s2, Some e) \<Rightarrow> (s2, Inl e)
              | (s2, None) \<Rightarrow>
                  (case (if multi s2 then
                           (case track_points (drop frame_start (trials s2)) s2 of
                              (s3, Some e) \<Rightarrow> (s3, Some e)
                            | (s3, None) \<Rightarrow>
                                (s3\<lparr>results_shared := (results_shared s3)
                                      \<lparr>by_rs := dict_update (by_rs (results_shared s3))
                                                 (opt_empty_tuple s3)\<rparr>\<rparr>,
                                 None))
                         else (s2, None)) of
                     (s4, Some e) \<Rightarrow> (s4, Inl e)
                   | (s4, None) \<Rightarrow>
                       ((if current + 1 > epochs_limit s4 then s4\<lparr>max_epoch_reached := True\<rparr>
                         else s4),
                        Inr i))))"

text \<open>
  The assignments of \<^verbatim>\<open>__init__\<close> to the attributes of the run budget, the saved
  count and the list of trials. The argument carries the attributes that come from the
  configuration and from \<^verbatim>\<open>setup_multi\<close>.
\<close>

definition init_run :: "('m, 'g) hyperopt \<Rightarrow> ('m, 'g) hyperopt" where
  "init_run c =
     c\<lparr>max_epoch := 0, max_epoch_reached := False, min_epochs := 0, search_space_size := 0,
       current_best_loss := VOID_LOSS, current_best_epoch := 0, epochs_since_last_best := [],
       avg_best_occurrence := 0, num_epochs_saved := 0, trials := []\<rparr>"




section \<open>The shared table of evaluated points\<close>

text \<open>
  The loop of \<^verbatim>\<open>opt_get_past_points\<close> over the keys of \<^verbatim>\<open>asked\<close>. The statement
  \<^verbatim>\<open>counter -= 1\<close> changes the local variable only: nothing writes it back to
  \<^verbatim>\<open>results_shared[a]\<close>.
\<close>

fun past_points_loop ::
  "point list \<Rightarrow> (point, real option) pydict \<Rightarrow> shared_results \<Rightarrow>
   (point, real option) pydict \<times> shared_results" where
  "past_points_loop [] asked rsh = (asked, rsh)"
| "past_points_loop (a # as) asked rsh =
     (case map_of (pts rsh) a of
        None \<Rightarrow> past_points_loop as asked rsh
      | Some (y, counter) \<Rightarrow>
          (let asked' = AList.update a (Some y) asked;
               counter' = counter - 1
           in past_points_loop as asked'
                (if counter' < 1 then rsh\<lparr>pts := AList.delete a (pts rsh)\<rparr> else rsh)))"

text \<open>\<^verbatim>\<open>Hyperopt.opt_get_past_points(is_shared, asked, results_shared)\<close>: the updated
  \<^verbatim>\<open>asked\<close>, \<^verbatim>\<open>len(results_shared)\<close>, and the table.\<close>

definition opt_get_past_points ::
  "bool \<Rightarrow> (point, real option) pydict \<Rightarrow> shared_results \<Rightarrow>
   ((point, real option) pydict \<times> nat) \<times> shared_results" where
  "opt_get_past_points is_shared asked rsh =
     (case past_points_loop (map fst asked) asked rsh of
        (asked', rsh') \<Rightarrow> ((asked', length (pts rsh') + length (by_rs rsh')), rsh'))"

text \<open>
  \<^verbatim>\<open>Hyperopt.opt_results\<close>. \<^verbatim>\<open>void_filtered\<close> is the address of a list object;
  \<^verbatim>\<open>optimizers.put\<close> appends to the queue and \<^verbatim>\<open>results_batch.put\<close> sends the
  dictionaries by value. \<^verbatim>\<open>results_shared[rs]\<close> raises \<^verbatim>\<open>KeyError\<close> on a missing
  random state, after the points were added to the table.
\<close>

definition opt_results ::
  "('m, 'g) optimizer \<Rightarrow> addr \<Rightarrow> int \<Rightarrow> bool \<Rightarrow> store \<Rightarrow> ('m, 'g) hyperopt \<Rightarrow>
   (store \<times> ('m, 'g) hyperopt) \<times> py_error option" where
  "opt_results opt0 void_filtered jobs is_shared h s =
     (let vf = list_of h void_filtered;
          is_void = \<not> (void_loss opt0 \<noteq> VOID_LOSS \<or> length vf > 0);
          opt1 = (if \<not> is_shared then opt_clear opt0 else opt0);
          s1 = (if \<not> is_shared then s\<lparr>optimizers := optimizers s @ [opt1]\<rparr> else s);
          r = rs opt1
      in if \<not> is_void then
           (let rsh = results_shared s1;
                pts1 = dict_update (pts rsh)
                  (dict_of_pairs
                     (map (\<lambda>a. (params_Xi (dict_of h a), (loss (dict_of h a), jobs - 1))) vf))
            in case map_of (by_rs rsh) r of
                 None \<Rightarrow> ((h, s1\<lparr>results_shared := rsh\<lparr>pts := pts1\<rparr>\<rparr>), Some KeyError)
               | Some (X, Y) \<Rightarrow>
                   (let X' = X @ map (\<lambda>a. params_Xi (dict_of h a)) vf;
                        Y' = Y @ map (\<lambda>a. loss (dict_of h a)) vf;
                        rsh2 = rsh\<lparr>pts := pts1, by_rs := AList.update r (X', Y') (by_rs rsh)\<rparr>;
                        initial_points = n_initial_points_left opt1;
                        h' = fold (\<lambda>(n, a) h1.
                                h1\<lparr>dict_of := (dict_of h1)
                                     (a := (dict_of h1 a)\<lparr>is_initial_point := (initial_points - int n > 0),
                                                           random_state := r\<rparr>)\<rparr>)
                               (zip [0..<length vf] vf) h
                    in ((h', s1\<lparr>results_shared := rsh2,
                                 results_batch := results_batch s1 @ [map (dict_of h') vf]\<rparr>),
                        None)))
         else ((h, s1), None))"

section \<open>Setting up the optimizers\<close>





text \<open>
  The dict comprehension \<^verbatim>\<open>{tuple(X): [yi[r][n], counter] for r in Xi for n, X in
  enumerate(Xi[r])}\<close>: \<^verbatim>\<open>yi[r]\<close> is looked up for every point, so a missing key or a
  shorter list raises.
\<close>

fun pair_up :: "point list \<Rightarrow> real list option \<Rightarrow> int \<Rightarrow> py_error + (point \<times> real \<times> int) list" where
  "pair_up [] ys counter = Inr []"
| "pair_up (X # Xs) None counter = Inl KeyError"
| "pair_up (X # Xs) (Some []) counter = Inl IndexError"
| "pair_up (X # Xs) (Some (y # ys)) counter =
     (case pair_up Xs (Some ys) counter of
        Inl e \<Rightarrow> Inl e
      | Inr ps \<Rightarrow> Inr ((X, (y, counter)) # ps))"

fun reconstruct :: "(int, point list) pydict \<Rightarrow> (int, real list) pydict \<Rightarrow> int \<Rightarrow>
    py_error + (point \<times> real \<times> int) list" where
  "reconstruct [] ys counter = Inr []"
| "reconstruct ((r, Xs) # rest) ys counter =
     (case pair_up Xs (map_of ys r) counter of
        Inl e \<Rightarrow> Inl e
      | Inr ps \<Rightarrow>
          (case reconstruct rest ys counter of
             Inl e \<Rightarrow> Inl e
           | Inr qs \<Rightarrow> Inr (ps @ qs)))"


section \<open>Asking and telling in single-optimizer mode\<close>

text \<open>
  The state of the generator \<^verbatim>\<open>opt_ask_and_tell\<close>: its local variables \<^verbatim>\<open>vals\<close> (a
  list object), \<^verbatim>\<open>to_ask\<close>, \<^verbatim>\<open>evald\<close> and \<^verbatim>\<open>opt\<close>, the coordinator and the
  store. \<^verbatim>\<open>evald\<close> is created empty by every call.
\<close>

record ('m, 'g) gen_state =
  g_vals :: addr
  g_to_ask :: "point list"
  g_evald :: "point set"
  g_opt :: "('m, 'g) optimizer"
  g_self :: "('m, 'g) hyperopt"
  g_store :: store

text \<open>
  The local function \<^verbatim>\<open>point()\<close>. With \<^verbatim>\<open>ask_points\<close> set, points are taken from
  the queue \<^verbatim>\<open>to_ask\<close>, which is refilled by one \<^verbatim>\<open>ask\<close> of that many points when
  empty (\<^verbatim>\<open>popleft\<close> raises \<^verbatim>\<open>IndexError\<close> if the optimizer returned none);
  otherwise one point is asked. Every \<^verbatim>\<open>ask\<close> calls \<^verbatim>\<open>self.lie_strat()\<close> once.
\<close>

definition ask_one :: "('m, 'g) skopt \<Rightarrow> ('m, 'g) gen_state \<Rightarrow> (py_error + point) \<times> ('m, 'g) gen_state" where
  "ask_one sk g =
     (let s = g_self g in
      case sk_ask sk (g_opt g) (lie_strat s (lie_calls s)) of
        (p, opt') \<Rightarrow> (Inr p, g\<lparr>g_opt := opt', g_self := s\<lparr>lie_calls := Suc (lie_calls s)\<rparr>\<rparr>))"

definition ask_queued :: "('m, 'g) skopt \<Rightarrow> nat \<Rightarrow> ('m, 'g) gen_state \<Rightarrow> (py_error + point) \<times> ('m, 'g) gen_state" where
  "ask_queued sk n g =
     (case g_to_ask g of
        p # ps \<Rightarrow> (Inr p, g\<lparr>g_to_ask := ps\<rparr>)
      | [] \<Rightarrow>
          (let s = g_self g in
           case sk_ask_n sk (g_opt g) n (lie_strat s (lie_calls s)) of
             (new, opt') \<Rightarrow>
               (let g' = g\<lparr>g_opt := opt', g_self := s\<lparr>lie_calls := Suc (lie_calls s)\<rparr>\<rparr> in
                case new of
                  [] \<Rightarrow> (Inl IndexError, g')
                | p # ps \<Rightarrow> (Inr p, g'\<lparr>g_to_ask := ps\<rparr>))))"

definition next_point :: "('m, 'g) skopt \<Rightarrow> ('m, 'g) gen_state \<Rightarrow> (py_error + point) \<times> ('m, 'g) gen_state" where
  "next_point sk g =
     (case ask_points (g_self g) of
        None \<Rightarrow> ask_one sk g
      | Some n \<Rightarrow> if n \<noteq> 0 then ask_queued sk n g else ask_one sk g)"

text \<open>
  The first half of an iteration: the results that the workers appended to
  \<^verbatim>\<open>backend.results_list\<close> since the last iteration (\<^verbatim>\<open>arrived\<close>, addresses of
  their dictionaries) are moved to \<^verbatim>\<open>vals\<close>, VOID-filtered, told to the optimizer
  and collected in \<^verbatim>\<open>self.batch_results\<close>; then both lists are emptied.
\<close>

definition tell_pending :: "('m, 'g) skopt \<Rightarrow> addr list \<Rightarrow> ('m, 'g) gen_state \<Rightarrow> ('m, 'g) gen_state" where
  "tell_pending sk arrived g =
     (let fit = (length (g_to_ask g) < 1);
          rl = results_list (g_self g) @ arrived;
          h = g_store g;
          vals = g_vals g;
          h1 = (if length rl > 0 then h\<lparr>list_of := (list_of h)(vals := list_of h vals @ rl)\<rparr> else h);
          s1 = (g_self g)\<lparr>results_list := []\<rparr>
      in if list_of h1 vals \<noteq> [] then
           (case filter_void_losses vals (g_opt g) h1 of
              (void_filtered, opt1, h2) \<Rightarrow>
                (let vs = read_list h2 void_filtered;
                     opt2 = (if vs \<noteq> [] then sk_tell sk opt1 (map params_Xi vs) (map loss vs) fit else opt1);
                     s2 = (if vs \<noteq> []
                           then s1\<lparr>batch_results := batch_results s1 @ list_of h2 void_filtered\<rparr>
                           else s1);
                     h3 = h2\<lparr>list_of := (list_of h2)(vals := [], void_filtered := [])\<rparr>
                 in g\<lparr>g_opt := opt2, g_self := s2, g_store := h3\<rparr>))
         else g\<lparr>g_self := s1, g_store := h1\<rparr>)"

text \<open>
  The loop \<^verbatim>\<open>for r in range(tries)\<close>, from iteration \<^verbatim>\<open>r\<close> with \<^verbatim>\<open>n\<close> iterations
  left. The result is the points yielded, the final state and the exception raised, if
  any. A point that is in \<^verbatim>\<open>evald\<close> is replaced once, after \<^verbatim>\<open>opt.update_next()\<close>;
  if the replacement is in \<^verbatim>\<open>evald\<close> too, \<^verbatim>\<open>break\<close> ends the generator.
\<close>

fun ask_loop ::
  "('m, 'g) skopt \<Rightarrow> (nat \<Rightarrow> addr list) \<Rightarrow> nat \<Rightarrow> nat \<Rightarrow> ('m, 'g) gen_state \<Rightarrow>
   point list \<times> ('m, 'g) gen_state \<times> py_error option" where
  "ask_loop sk arrive r 0 g = ([], g, None)"
| "ask_loop sk arrive r (Suc n) g =
     (case next_point sk (tell_pending sk (arrive r) g) of
        (Inl e, g2) \<Rightarrow> ([], g2, Some e)
      | (Inr a, g2) \<Rightarrow>
          if a \<in> g_evald g2 then
            (case next_point sk (g2\<lparr>g_opt := sk_update_next sk (g_opt g2)\<rparr>) of
               (Inl e, g4) \<Rightarrow> ([], g4, Some e)
             | (Inr a', g4) \<Rightarrow>
                 if a' \<in> g_evald g4 then ([], g4, None)
                 else (case ask_loop sk arrive (Suc r) n (g4\<lparr>g_evald := insert a' (g_evald g4)\<rparr>) of
                         (ys, g5, e) \<Rightarrow> (a' # ys, g5, e)))
          else (case ask_loop sk arrive (Suc r) n (g2\<lparr>g_evald := insert a (g_evald g2)\<rparr>) of
                  (ys, g5, e) \<Rightarrow> (a # ys, g5, e)))"

text \<open>
  \<^verbatim>\<open>Hyperopt.opt_ask_and_tell(jobs, tries)\<close>, run to its end: the points it yields,
  the store and the coordinator afterwards (\<^verbatim>\<open>self.opt\<close> is the object the generator
  worked on), and the exception raised, if any. \<^verbatim>\<open>arrive r\<close> are the results that
  reached \<^verbatim>\<open>backend.results_list\<close> before iteration \<^verbatim>\<open>r\<close>. \<^verbatim>\<open>self.opt\<close> is set
  by \<^verbatim>\<open>setup_optimizers\<close>; on \<^verbatim>\<open>None\<close> the first use of it raises.
\<close>

definition opt_ask_and_tell ::
  "('m, 'g) skopt \<Rightarrow> (nat \<Rightarrow> addr list) \<Rightarrow> int \<Rightarrow> nat \<Rightarrow> store \<Rightarrow> ('m, 'g) hyperopt \<Rightarrow>
   point list \<times> (store \<times> ('m, 'g) hyperopt) \<times> py_error option" where
  "opt_ask_and_tell sk arrive jobs tries h s =
     (case self_opt s of
        None \<Rightarrow> ([], (h, s), (if tries = 0 then None else Some AttributeError))
      | Some opt0 \<Rightarrow>
          (let vals = next_list h;
               h1 = h\<lparr>list_of := (list_of h)(vals := []), next_list := Suc vals\<rparr>;
               g0 = \<lparr>g_vals = vals, g_to_ask = [], g_evald = {}, g_opt = opt0, g_self = s,
                     g_store = h1\<rparr>
           in case ask_loop sk arrive 0 tries g0 of
                (ys, g, e) \<Rightarrow> (ys, (g_store g, (g_self g)\<lparr>self_opt := Some (g_opt g)\<rparr>), e)))"

section \<open>The size of the search space\<close>








section \<open>Concrete inputs\<close>

text \<open>
  A result dictionary with one parameter, an optimizer that has observed nothing, a
  library whose \<^verbatim>\<open>ask\<close> proposes the point \<^verbatim>\<open>(1,)\<close> every time and whose
  \<^verbatim>\<open>tell\<close> records its arguments, and the coordinator as \<^verbatim>\<open>__init__\<close>,
  \<^verbatim>\<open>setup_points\<close> and \<^verbatim>\<open>setup_optimizers\<close> leave it in single mode on a fresh run
  with no epoch limit configured. The theorems are evaluated on them.
\<close>

definition example_trial :: "real \<Rightarrow> int \<Rightarrow> trial" where
  "example_trial l x =
     \<lparr>loss = l, params_dict = [(''x'', PInt x)], total_profit = 0, is_initial_point = False,
      random_state = 1, is_best = None, current_epoch = None\<rparr>"

definition example_opt :: "(unit, unit) optimizer" where
  "example_opt =
     \<lparr>Xi = [], yi = [], models = [], rng = (), n_initial_points_left = 0,
      void_loss = VOID_LOSS, void = 0, rs = 1\<rparr>"

definition example_store :: store where
  "example_store =
     \<lparr>dict_of = (\<lambda>a. if a = 0 then example_trial VOID_LOSS 1
                     else if a = 1 then example_trial (1 / 2) 2
                     else example_trial VOID_LOSS 3),
      list_of = (\<lambda>l. if l = 0 then [0, 1, 2] else []),
      next_list = 1\<rparr>"

definition example_sk :: "(unit, unit) skopt" where
  "example_sk =
     \<lparr>sk_ask = (\<lambda>opt strat. ([PInt 1], opt)),
      sk_ask_n = (\<lambda>opt n strat. (replicate n [PInt 1], opt)),
      sk_tell = (\<lambda>opt X y fit. opt\<lparr>Xi := Xi opt @ X, yi := yi opt @ y\<rparr>),
      sk_update_next = (\<lambda>opt. opt),
      sk_copy = (\<lambda>opt g. opt),
      sk_copy_seed = (\<lambda>opt n. opt),
      sk_randint = (\<lambda>g lo hi. (lo + 7, g)),
      sk_seed = (\<lambda>g n. g),
      sk_new = (\<lambda>dims r. example_opt)\<rparr>"

text \<open>
  A second library, whose \<^verbatim>\<open>ask\<close> proposes the point given by the number of fitted
  models and whose \<^verbatim>\<open>update_next\<close> adds a model, so that the point after an
  \<^verbatim>\<open>update_next\<close> is a new one.
\<close>

definition counting_sk :: "(unit, unit) skopt" where
  "counting_sk =
     example_sk
       \<lparr>sk_ask := (\<lambda>opt strat. ([PInt (int (length (models opt)))], opt)),
        sk_update_next := (\<lambda>opt. opt\<lparr>models := () # models opt\<rparr>)\<rparr>"

definition example_state :: "(unit, unit) hyperopt" where
  "example_state =
     \<lparr>n_jobs = 2, n_points = 1, ask_points = None, effort = PyInt 1, total_epochs = 0,
      max_epoch = 10, max_epoch_reached = False, min_epochs = 10, search_space_size = 1000,
      current_best_loss = VOID_LOSS, current_best_epoch = 0, epochs_since_last_best = [],
      avg_best_occurrence = 5, num_epochs_saved = 0, trials = [], epochs = [],
      multi = False, shared = False, self_opt = Some example_opt, self_Xi = [], self_yi = [],
      rngs = [], continue_filtered = False, self_random_state = 1,
      dimensions = [Integer ''x'' 0 10], lie_strat = (\<lambda>n. ''cl_min''), lie_calls = 0,
      batch_results = [], results_list = [], optimizers = [], results_batch = [],
      results_shared = \<lparr>pts = [], by_rs = []\<rparr>, results_file = None, opts_file = None\<rparr>"


section \<open>Theorems\<close>

subsection \<open>Parameters by name\<close>

lemma fold_update_map_of:
  "map_of (fold (\<lambda>(d, v) acc. AList.update (name d) v acc) ps acc) k =
     (case map_of (rev (map (\<lambda>(d, v). (name d, v)) ps)) k of
        Some v \<Rightarrow> Some v
      | None \<Rightarrow> map_of acc k)"
  by (induction ps arbitrary: acc) (auto simp: update_conv' map_add_def split: option.splits)

lemma map_of_rev_last:
  "i < length qs \<Longrightarrow> \<forall>j. i < j \<and> j < length qs \<longrightarrow> fst (qs ! j) \<noteq> fst (qs ! i) \<Longrightarrow>
   map_of (rev qs) (fst (qs ! i)) = Some (snd (qs ! i))"
proof (induction qs arbitrary: i)
  case Nil
  then show ?case by simp
next
  case (Cons q qs)
  show ?case
  proof (cases i)
    case 0
    have "fst q \<notin> fst ` set qs"
    proof
      assume "fst q \<in> fst ` set qs"
      then obtain j where "j < length qs" "fst (qs ! j) = fst q"
        by (metis (no_types, lifting) imageE in_set_conv_nth)
      with Cons.prems(2) 0 show False by (auto dest: spec[of _ "Suc j"])
    qed
    then have "map_of (rev qs) (fst q) = None"
      by (simp add: map_of_eq_None_iff)
    with 0 show ?thesis by (simp add: map_add_def)
  next
    case (Suc i')
    from Cons.prems Suc have "i' < length qs" by simp
    moreover from Cons.prems(2) Suc
    have "\<forall>j. i' < j \<and> j < length qs \<longrightarrow> fst (qs ! j) \<noteq> fst (qs ! i')"
      by (auto dest: spec[of _ "Suc j" for j])
    ultimately have "map_of (rev qs) (fst (qs ! i')) = Some (snd (qs ! i'))"
      by (rule Cons.IH)
    with Suc show ?thesis by (simp add: map_add_def)
  qed
qed

lemma fst_set_update: "fst ` set (AList.update k v al) = insert k (fst ` set al)"
  by (simp add: update_conv' flip: dom_map_of_conv_image_fst)

lemma fold_update_keys:
  "fst ` set (fold (\<lambda>(d, v) acc. AList.update (name d) v acc) ps acc) =
     fst ` set acc \<union> name ` fst ` set ps"
  by (induction ps arbitrary: acc) (simp_all add: fst_set_update split_beta)

lemma fold_update_distinct:
  "distinct (map fst acc) \<Longrightarrow>
   distinct (map fst (fold (\<lambda>(d, v) acc. AList.update (name d) v acc) ps acc))"
  by (induction ps arbitrary: acc) (auto simp: distinct_update)

text \<open>
  Claim C10, as amended. \<^verbatim>\<open>_get_params_dict\<close> raises \<^verbatim>\<open>ValueError\<close> exactly when the
  number of values differs from the number of dimensions. Otherwise it returns a dictionary
  whose keys are the dimensions' names, each once, and a name is mapped to the value at the
  last position that carries the name: to the value at the same position for every
  dimension whose name no later dimension repeats. The function is pure.
\<close>

theorem get_params_dict_named:
  "(length raw \<noteq> length dims \<longrightarrow> get_params_dict dims raw = Inl ValueError) \<and>
   (length raw = length dims \<longrightarrow>
      (\<exists>m. get_params_dict dims raw = Inr m \<and>
           distinct (map fst m) \<and>
           set (map fst m) = set (map name dims) \<and>
           (\<forall>i<length dims.
              (\<forall>j. i < j \<and> j < length dims \<longrightarrow> name (dims ! j) \<noteq> name (dims ! i)) \<longrightarrow>
              map_of m (name (dims ! i)) = Some (raw ! i))))"
proof (intro conjI impI)
  assume "length raw \<noteq> length dims"
  then show "get_params_dict dims raw = Inl ValueError"
    by (simp add: get_params_dict_def)
next
  assume len: "length raw = length dims"
  let ?m = "fold (\<lambda>(d, v) acc. AList.update (name d) v acc) (zip dims raw) []"
  let ?qs = "map (\<lambda>(d, v). (name d, v)) (zip dims raw)"
  have r: "get_params_dict dims raw = Inr ?m"
    using len by (simp add: get_params_dict_def)
  have d: "distinct (map fst ?m)"
    by (rule fold_update_distinct) simp
  have k: "set (map fst ?m) = set (map name dims)"
  proof -
    have "fst ` set (zip dims raw) = set dims"
      using len map_fst_zip[of dims raw] set_map[of fst "zip dims raw"] by simp
    then show ?thesis by (simp add: fold_update_keys)
  qed
  have v: "map_of ?m (name (dims ! i)) = Some (raw ! i)"
    if i: "i < length dims"
      and last: "\<forall>j. i < j \<and> j < length dims \<longrightarrow> name (dims ! j) \<noteq> name (dims ! i)" for i
  proof -
    have qi: "i < length ?qs" using i len by simp
    have "\<forall>j. i < j \<and> j < length ?qs \<longrightarrow> fst (?qs ! j) \<noteq> fst (?qs ! i)"
      using last i len by auto
    from map_of_rev_last[OF qi this] have "map_of (rev ?qs) (name (dims ! i)) = Some (raw ! i)"
      using i len by simp
    then show ?thesis by (simp add: fold_update_map_of)
  qed
  show "\<exists>m. get_params_dict dims raw = Inr m \<and> distinct (map fst m) \<and>
           set (map fst m) = set (map name dims) \<and>
           (\<forall>i<length dims.
              (\<forall>j. i < j \<and> j < length dims \<longrightarrow> name (dims ! j) \<noteq> name (dims ! i)) \<longrightarrow>
              map_of m (name (dims ! i)) = Some (raw ! i))"
    using r d k v by blast
qed

text \<open>The theorem at a two-dimensional space, and at a list of the wrong length.\<close>

theorem get_params_dict_named_witness:
  "get_params_dict [Integer ''a'' 0 10, Categorical ''b'' [PCat ''x'', PCat ''y'']] [PInt 3, PCat ''y'']
     = Inr [(''a'', PInt 3), (''b'', PCat ''y'')] \<and>
   get_params_dict [Integer ''a'' 0 10] [PInt 3, PCat ''y''] = Inl ValueError"
  using get_params_dict_named[of "[PInt 3, PCat ''y'']" "[Integer ''a'' 0 10, Categorical ''b'' [PCat ''x'', PCat ''y'']]"]
    get_params_dict_named[of "[PInt 3, PCat ''y'']" "[Integer ''a'' 0 10]"]
  by (simp add: get_params_dict_def)

text \<open>
  Claim C10 as stated fails where two dimensions share a name: the later value overwrites
  the earlier one, so the first dimension's name is not mapped to the value at its position.
\<close>

theorem get_params_dict_duplicate_names:
  "\<not> (\<forall>dims raw m. get_params_dict dims raw = Inr m \<longrightarrow>
        (\<forall>i<length dims. map_of m (name (dims ! i)) = Some (raw ! i)))"
proof
  assume a: "\<forall>dims raw m. get_params_dict dims raw = Inr m \<longrightarrow>
        (\<forall>i<length dims. map_of m (name (dims ! i)) = Some (raw ! i))"
  have "get_params_dict [Integer ''a'' 0 10, Integer ''a'' 0 5] [PInt 1, PInt 2] = Inr [(''a'', PInt 2)]"
    by (simp add: get_params_dict_def)
  from a[rule_format, OF this, of 0] show False by simp
qed

subsection \<open>VOID filtering\<close>

lemma max_list_Max:
  assumes "ys \<noteq> []"
  shows "max_list ys = Max (set ys)"
proof (cases ys)
  case Nil
  with assms show ?thesis by simp
next
  case (Cons y ys')
  have "Max (set (y # ys')) = fold max ys' y" by (rule Max.set_eq_fold)
  with Cons show ?thesis by simp
qed

lemma default_bad_losses_frame:
  "list_of (default_bad_losses vl as h) = list_of h \<and>
   next_list (default_bad_losses vl as h) = next_list h"
  by (induction as arbitrary: h) simp_all

lemma default_bad_losses_dict:
  "dict_of (default_bad_losses vl as h) a =
     (if a \<in> set as \<and> loss (dict_of h a) = VOID_LOSS
      then (dict_of h a)\<lparr>loss := vl\<rparr> else dict_of h a)"
  by (induction as arbitrary: h) auto

lemma read_default_bad_losses:
  "map (dict_of (default_bad_losses vl as h)) as =
     map (\<lambda>v. if loss v = VOID_LOSS then v\<lparr>loss := vl\<rparr> else v) (map (dict_of h) as)"
  by (simp add: default_bad_losses_dict)

text \<open>
  Claim C2. For a call of \<^verbatim>\<open>filter_void_losses\<close> on a batch and an optimizer:
  while the sentinel is unset and the optimizer has no observation, exactly the results
  whose loss is \<^verbatim>\<open>VOID_LOSS\<close> are dropped from the returned list and the optimizer
  is unchanged. Otherwise nothing is dropped: an unset sentinel is set to the maximum of
  the observed losses, a set one is kept, and every result whose loss is \<^verbatim>\<open>VOID_LOSS\<close>
  is returned with the sentinel as its loss. When the observed losses are valid ones (none
  is \<^verbatim>\<open>VOID_LOSS\<close>) the sentinel is set after the call, and a set sentinel is never
  changed again: it is set once.
\<close>

theorem filter_void_losses_policy:
  "(void_loss opt = VOID_LOSS \<and> yi opt = [] \<longrightarrow>
      (case filter_void_losses vals opt h of (ret, opt', h') \<Rightarrow>
         read_list h' ret = filter (\<lambda>v. loss v \<noteq> VOID_LOSS) (read_list h vals) \<and>
         opt' = opt)) \<and>
   (\<not> (void_loss opt = VOID_LOSS \<and> yi opt = []) \<longrightarrow>
      (case filter_void_losses vals opt h of (ret, opt', h') \<Rightarrow>
         void_loss opt' = (if void_loss opt = VOID_LOSS then Max (set (yi opt)) else void_loss opt) \<and>
         opt' = opt\<lparr>void_loss := void_loss opt'\<rparr> \<and>
         read_list h' ret =
           map (\<lambda>v. if loss v = VOID_LOSS then v\<lparr>loss := void_loss opt'\<rparr> else v) (read_list h vals) \<and>
         (VOID_LOSS \<notin> set (yi opt) \<longrightarrow> void_loss opt' \<noteq> VOID_LOSS))) \<and>
   (void_loss opt \<noteq> VOID_LOSS \<longrightarrow>
      (case filter_void_losses vals opt h of (ret, opt', h') \<Rightarrow> opt' = opt))"
proof (intro conjI impI)
  assume "void_loss opt = VOID_LOSS \<and> yi opt = []"
  then show "case filter_void_losses vals opt h of (ret, opt', h') \<Rightarrow>
         read_list h' ret = filter (\<lambda>v. loss v \<noteq> VOID_LOSS) (read_list h vals) \<and> opt' = opt"
    by (simp add: filter_void_losses_def read_list_def Let_def filter_map comp_def)
next
  assume a: "\<not> (void_loss opt = VOID_LOSS \<and> yi opt = [])"
  show "case filter_void_losses vals opt h of (ret, opt', h') \<Rightarrow>
         void_loss opt' = (if void_loss opt = VOID_LOSS then Max (set (yi opt)) else void_loss opt) \<and>
         opt' = opt\<lparr>void_loss := void_loss opt'\<rparr> \<and>
         read_list h' ret =
           map (\<lambda>v. if loss v = VOID_LOSS then v\<lparr>loss := void_loss opt'\<rparr> else v) (read_list h vals) \<and>
         (VOID_LOSS \<notin> set (yi opt) \<longrightarrow> void_loss opt' \<noteq> VOID_LOSS)"
  proof (cases "void_loss opt = VOID_LOSS")
    case True
    with a have ne: "yi opt \<noteq> []" by simp
    then have "Max (set (yi opt)) \<in> set (yi opt)" by simp
    then have "VOID_LOSS \<notin> set (yi opt) \<longrightarrow> Max (set (yi opt)) \<noteq> VOID_LOSS" by auto
    with True ne show ?thesis
      by (simp add: filter_void_losses_def read_list_def Let_def max_list_Max
          default_bad_losses_frame read_default_bad_losses)
  next
    case False
    then show ?thesis
      by (simp add: filter_void_losses_def read_list_def Let_def
          default_bad_losses_frame read_default_bad_losses)
  qed
next
  assume "void_loss opt \<noteq> VOID_LOSS"
  then show "case filter_void_losses vals opt h of (ret, opt', h') \<Rightarrow> opt' = opt"
    by (simp add: filter_void_losses_def Let_def)
qed


text \<open>
  The theorem on a batch of three results of which the first and the third are void:
  before any observation, with the observations 3 and 7, and with the sentinel already 7.
\<close>

theorem filter_void_losses_policy_witness:
  "(case filter_void_losses 0 example_opt example_store of (ret, opt', h') \<Rightarrow>
      map loss (read_list h' ret) = [1 / 2] \<and> opt' = example_opt) \<and>
   (case filter_void_losses 0 (example_opt\<lparr>yi := [3, 7]\<rparr>) example_store of (ret, opt', h') \<Rightarrow>
      map loss (read_list h' ret) = [7, 1 / 2, 7] \<and> void_loss opt' = 7) \<and>
   (case filter_void_losses 0 (example_opt\<lparr>void_loss := 7\<rparr>) example_store of (ret, opt', h') \<Rightarrow>
      map loss (read_list h' ret) = [7, 1 / 2, 7] \<and> void_loss opt' = 7)"
  using filter_void_losses_policy[where opt = example_opt and vals = 0 and h = example_store]
    filter_void_losses_policy[where opt = "example_opt\<lparr>yi := [3, 7]\<rparr>" and vals = 0 and h = example_store]
    filter_void_losses_policy[where opt = "example_opt\<lparr>void_loss := 7\<rparr>" and vals = 0 and h = example_store]
  by (simp add: filter_void_losses_def Let_def example_opt_def example_store_def
      example_trial_def read_list_def VOID_LOSS_def)

subsection \<open>What scoring a batch leaves unchanged\<close>

lemma int_times_error: "int_times n x = Inl e \<Longrightarrow> e = OverflowError"
  by (auto simp: int_times_def float_of_int_def int_of_float_def
      split: pynum.splits option.splits sum.splits)














subsection \<open>VOID results and the best flag\<close>






text \<open>The definitions that evaluate the scoring of a batch on the concrete inputs.\<close>

lemmas eval_defs =
  log_results_def log_step_def save_results_def save_opts_def track_points_def
  update_max_epoch_def epochs_limit_def is_best_loss_def int_times_def py_max1_def
  opt_rand_def opt_clear_def init_run_def
  example_state_def example_sk_def example_opt_def example_trial_def VOID_LOSS_def Let_def



subsection \<open>Persistence after a batch\<close>

text \<open>
  Claim C4 at a fresh run (nothing loaded, nothing saved) and a first batch of one valid
  result: \<^verbatim>\<open>log_results\<close> appends the trial to \<^verbatim>\<open>self.trials\<close> and calls
  \<^verbatim>\<open>_save_results\<close>, which counts and dumps \<^verbatim>\<open>self.epochs\<close>. One trial is
  accumulated, the saved count stays 0 and no results file is written.
\<close>

theorem save_results_ignores_trials:
  "(case log_results example_sk [example_trial (1 / 2) 2] 0 10 example_state of
      (s', r) \<Rightarrow> r = Inr 1 \<and> length (trials s') = 1 \<and> num_epochs_saved s' = 0 \<and>
                 results_file s' = None)"
  by (simp add: eval_defs)

subsection \<open>VOID filtering writes the results in place\<close>




subsection \<open>The adaptive epoch ceiling\<close>

text \<open>
  Claim C7, as amended. When a result improves the best loss, the best loss becomes its
  loss. If the result is not an initial point, the gap to the previous best epoch is
  recorded, the average gap is recomputed and the best epoch is set; the ceiling becomes
  \<^verbatim>\<open>int((epoch of the new best + average gap + minimum epochs) * max(1, effort))\<close>,
  clamped to the search-space size, where the product is exact for an integer effort and
  for a float effort of at most 1, and is the float product (the sum converted to a
  double, the product rounded to the nearest double, truncated) for a float effort above
  1; the result is then appended. If that product is infinite, \<^verbatim>\<open>OverflowError\<close>
  is raised with the ceiling unchanged and the result not appended. If the result is an
  initial point, the best epoch, the gaps, their average and the ceiling are unchanged.
  With no total-epochs limit configured the epoch limit in force is the ceiling.
\<close>

theorem max_epoch_after_improvement:
  "loss v < current_best_loss s \<Longrightarrow>
   (let s' = fst (log_step fs (i, v) s);
        e = snd (log_step fs (i, v) s);
        c = int fs + int i;
        gaps = epochs_since_last_best s @ [c - current_best_epoch s];
        avg = sum_list gaps div int (length gaps)
    in current_best_loss s' = loss v \<and>
       (\<not> is_initial_point v \<longrightarrow>
          current_best_epoch s' = c \<and> epochs_since_last_best s' = gaps \<and>
          avg_best_occurrence s' = avg \<and>
          (case int_times (c + avg + min_epochs s) (py_max1 (effort s)) of
             Inr m \<Rightarrow>
               e = None \<and> max_epoch s' = min m (search_space_size s) \<and>
               max_epoch s' \<le> search_space_size s \<and> length (trials s') = Suc (length (trials s))
           | Inl x \<Rightarrow>
               e = Some OverflowError \<and> max_epoch s' = max_epoch s \<and> trials s' = trials s) \<and>
          (\<forall>n. effort s = PyInt n \<longrightarrow>
             int_times (c + avg + min_epochs s) (py_max1 (effort s))
               = Inr ((c + avg + min_epochs s) * max 1 n)) \<and>
          (\<forall>f. effort s = PyFloat f \<and> \<not> double_gt_one f \<longrightarrow>
             int_times (c + avg + min_epochs s) (py_max1 (effort s))
               = Inr (c + avg + min_epochs s)) \<and>
          (\<forall>f. effort s = PyFloat f \<and> double_gt_one f \<longrightarrow>
             int_times (c + avg + min_epochs s) (py_max1 (effort s))
               = (case float_of_int (c + avg + min_epochs s) of
                    Inl x \<Rightarrow> Inl x
                  | Inr d \<Rightarrow> int_of_float (float_mul d f)))) \<and>
       (is_initial_point v \<longrightarrow>
          e = None \<and> current_best_epoch s' = current_best_epoch s \<and>
          epochs_since_last_best s' = epochs_since_last_best s \<and>
          avg_best_occurrence s' = avg_best_occurrence s \<and> max_epoch s' = max_epoch s) \<and>
       (total_epochs s = 0 \<longrightarrow> epochs_limit s' = max_epoch s'))"
proof -
  assume a: "loss v < current_best_loss s"
  define c where "c = int fs + int i"
  define gaps where "gaps = epochs_since_last_best s @ [c - current_best_epoch s]"
  define avg where "avg = sum_list gaps div int (length gaps)"
  define p where "p = int_times (c + avg + min_epochs s) (py_max1 (effort s))"
  have ints: "\<forall>n. effort s = PyInt n \<longrightarrow> p = Inr ((c + avg + min_epochs s) * max 1 n)"
    by (simp add: p_def py_max1_def int_times_def)
  have small: "\<forall>f. effort s = PyFloat f \<and> \<not> double_gt_one f \<longrightarrow> p = Inr (c + avg + min_epochs s)"
    by (simp add: p_def py_max1_def int_times_def)
  have big: "\<forall>f. effort s = PyFloat f \<and> double_gt_one f \<longrightarrow>
      p = (case float_of_int (c + avg + min_epochs s) of
             Inl x \<Rightarrow> Inl x | Inr d \<Rightarrow> int_of_float (float_mul d f))"
    by (simp add: p_def py_max1_def int_times_def)
  show ?thesis
  proof (cases "is_initial_point v")
    case True
    with a show ?thesis
      by (simp add: log_step_def update_max_epoch_def is_best_loss_def epochs_limit_def Let_def)
  next
    case False
    show ?thesis
    proof (cases p)
      case (Inl x)
      then have "x = OverflowError" unfolding p_def by (rule int_times_error)
      with a False Inl ints small big show ?thesis
        unfolding Let_def c_def[symmetric] gaps_def[symmetric] avg_def[symmetric] p_def[symmetric]
        by (simp add: log_step_def update_max_epoch_def is_best_loss_def epochs_limit_def Let_def
            c_def[symmetric] gaps_def[symmetric] avg_def[symmetric] p_def[symmetric])
    next
      case (Inr m)
      with a False ints small big show ?thesis
        unfolding Let_def c_def[symmetric] gaps_def[symmetric] avg_def[symmetric] p_def[symmetric]
        by (simp add: log_step_def update_max_epoch_def is_best_loss_def epochs_limit_def Let_def
            min_def c_def[symmetric] gaps_def[symmetric] avg_def[symmetric] p_def[symmetric])
    qed
  qed
qed

text \<open>The definitions that evaluate the float operations on concrete numbers.\<close>

lemmas float_defs =
  float_of_int_def round_dyadic_def nearest_double_def overflows_def double_exponent_def
  round_half_even_def float_mul_def float_sub_def int_of_float_def int_of_double_def
  double_gt_one_def to_float_def int_of_diff_def compute_bitlen

text \<open>
  The theorem on the fresh state (integer effort 1: 1 + 1 + 10 = 12), with the effort
  1.15, the double 5179139571476070 * 2 ** -52, where the sum is 20 and the float product
  gives 23, and with the effort 1.5 where the clamp to a search-space size of 30 applies.
\<close>

theorem max_epoch_after_improvement_witness:
  "loss (example_trial (1 / 2) 2) < current_best_loss example_state \<and>
   max_epoch (fst (log_step 0 (1, example_trial (1 / 2) 2) example_state)) = 12 \<and>
   epochs_limit (fst (log_step 0 (1, example_trial (1 / 2) 2) example_state)) = 12 \<and>
   double_gt_one (5179139571476070, - 52) \<and>
   int_times 20 (PyFloat (5179139571476070, - 52)) = Inr 23 \<and>
   max_epoch (fst (log_step 0 (5, example_trial (1 / 2) 2)
                (example_state\<lparr>effort := PyFloat (5179139571476070, - 52)\<rparr>))) = 23 \<and>
   max_epoch (fst (log_step 4 (3, example_trial (1 / 2) 2)
                (example_state\<lparr>effort := PyFloat (6755399441055744, - 52),
                                search_space_size := 30\<rparr>))) = 30"
  using max_epoch_after_improvement[where v = "example_trial (1 / 2) 2" and s = example_state
      and fs = 0 and i = 1]
    max_epoch_after_improvement[where v = "example_trial (1 / 2) 2"
      and s = "example_state\<lparr>effort := PyFloat (5179139571476070, - 52)\<rparr>" and fs = 0 and i = 5]
    max_epoch_after_improvement[where v = "example_trial (1 / 2) 2"
      and s = "example_state\<lparr>effort := PyFloat (6755399441055744, - 52),
                              search_space_size := 30\<rparr>" and fs = 4 and i = 3]
  by (simp add: eval_defs float_defs)

text \<open>
  Claim C7 as stated fails for an improvement by an initial point: no total-epochs limit
  is configured, the result improves the best loss, the ceiling stays 10, and the formula
  of the claim gives 12.
\<close>

theorem max_epoch_initial_point_improvement:
  "loss ((example_trial (1 / 2) 2)\<lparr>is_initial_point := True\<rparr>) < current_best_loss example_state \<and>
   total_epochs example_state = 0 \<and>
   log_step 0 (1, (example_trial (1 / 2) 2)\<lparr>is_initial_point := True\<rparr>) example_state
     = (example_state
          \<lparr>current_best_loss := 1 / 2,
           trials := [(example_trial (1 / 2) 2)
                        \<lparr>is_initial_point := True, is_best := Some True, current_epoch := Some 1\<rparr>]\<rparr>,
        None) \<and>
   epochs_limit (fst (log_step 0 (1, (example_trial (1 / 2) 2)\<lparr>is_initial_point := True\<rparr>)
                        example_state)) = 10 \<and>
   int_times
     (1 + sum_list (epochs_since_last_best example_state @ [1 - current_best_epoch example_state])
            div int (length (epochs_since_last_best example_state @ [1 - current_best_epoch example_state]))
        + min_epochs example_state)
     (py_max1 (effort example_state)) = Inr 12 \<and>
   min 12 (search_space_size example_state) = 12"
  by (simp add: eval_defs)

subsection \<open>The reference count of a shared point\<close>

text \<open>
  Claim C6 with three workers. \<^verbatim>\<open>opt_results\<close> publishes a point with the count
  \<^verbatim>\<open>jobs - 1 = 2\<close>. A peer that asks the point receives its loss, and the table is
  unchanged: the decrement stays in the local variable. A second peer finds the same
  entry with the same count, so the entry is never decremented and never removed.
\<close>

theorem shared_counter_not_written_back:
  "(case opt_results example_opt 0 3 False
           (example_store\<lparr>list_of := (\<lambda>l. if l = 0 then [1] else [])\<rparr>)
           (example_state\<lparr>multi := True, results_shared := \<lparr>pts = [], by_rs = [(1, ([], []))]\<rparr>\<rparr>) of
      ((h', s'), e) \<Rightarrow>
        e = None \<and> pts (results_shared s') = [([PInt 2], (1 / 2, 2))] \<and>
        (case opt_get_past_points False [([PInt 2], None)] (results_shared s') of
           ((asked1, n1), t1) \<Rightarrow>
             asked1 = [([PInt 2], Some (1 / 2))] \<and> pts t1 = [([PInt 2], (1 / 2, 2))] \<and>
             (case opt_get_past_points False [([PInt 2], None)] t1 of
                ((asked2, n2), t2) \<Rightarrow>
                  asked2 = [([PInt 2], Some (1 / 2))] \<and> pts t2 = [([PInt 2], (1 / 2, 2))])))"
  by (simp add: opt_results_def opt_get_past_points_def dict_update_def dict_of_pairs_def
      params_Xi_def opt_clear_def example_store_def example_state_def example_opt_def
      example_trial_def VOID_LOSS_def Let_def)

text \<open>The same run read off at its end: after both peers the entry is still in the
  table and its count is still 2.\<close>

theorem shared_counter_not_written_back_witness:
  "map_of (pts (snd (opt_get_past_points False [([PInt 2], None)]
      (snd (opt_get_past_points False [([PInt 2], None)]
        (results_shared (snd (fst (opt_results example_opt 0 3 False
           (example_store\<lparr>list_of := (\<lambda>l. if l = 0 then [1] else [])\<rparr>)
           (example_state\<lparr>multi := True,
              results_shared := \<lparr>pts = [], by_rs = [(1, ([], []))]\<rparr>\<rparr>)))))))))) [PInt 2]
   = Some (1 / 2, 2)"
  using shared_counter_not_written_back
  by (simp add: opt_results_def opt_get_past_points_def dict_update_def dict_of_pairs_def
      params_Xi_def opt_clear_def example_store_def example_state_def example_opt_def
      example_trial_def VOID_LOSS_def Let_def)


subsection \<open>No point twice within one batch\<close>

lemma tell_pending_evald: "g_evald (tell_pending sk arrived g) = g_evald g"
  by (simp add: tell_pending_def Let_def split: prod.splits)

lemma next_point_evald: "g_evald (snd (next_point sk g)) = g_evald g"
  by (simp add: next_point_def ask_one_def ask_queued_def Let_def
      split: option.splits prod.splits list.splits)

lemma tell_pending_calls: "lie_calls (g_self (tell_pending sk arrived g)) = lie_calls (g_self g)"
  by (simp add: tell_pending_def Let_def split: prod.splits)

lemma next_point_calls:
  "lie_calls (g_self (snd (next_point sk g))) \<le> Suc (lie_calls (g_self g))"
  by (simp add: next_point_def ask_one_def ask_queued_def Let_def
      split: option.splits prod.splits list.splits)

lemma ask_loop_distinct:
  "(case ask_loop sk arrive r n g of
      (ys, g', e) \<Rightarrow>
        distinct ys \<and> set ys \<inter> g_evald g = {} \<and> length ys \<le> n \<and>
        g_evald g' = g_evald g \<union> set ys \<and>
        lie_calls (g_self g') \<le> lie_calls (g_self g) + 2 * n)"
proof (induction n arbitrary: r g)
  case 0
  show ?case by simp
next
  case (Suc n)
  let ?g1 = "tell_pending sk (arrive r) g"
  obtain x g2 where np: "next_point sk ?g1 = (x, g2)" by (cases "next_point sk ?g1")
  have e2: "g_evald g2 = g_evald g"
    using next_point_evald[where sk = sk and g = ?g1] np by (simp add: tell_pending_evald)
  have c2: "lie_calls (g_self g2) \<le> Suc (lie_calls (g_self g))"
    using next_point_calls[where sk = sk and g = ?g1] np by (simp add: tell_pending_calls)
  show ?case
  proof (cases x)
    case (Inl e)
    with np c2 e2 show ?thesis by simp
  next
    case (Inr a)
    show ?thesis
    proof (cases "a \<in> g_evald g2")
      case False
      let ?g3 = "g2\<lparr>g_evald := insert a (g_evald g2)\<rparr>"
      obtain ys g5 e where al: "ask_loop sk arrive (Suc r) n ?g3 = (ys, g5, e)"
        by (cases "ask_loop sk arrive (Suc r) n ?g3")
      from Suc.IH[where r = "Suc r" and g = ?g3] al
      have ih: "distinct ys \<and> set ys \<inter> g_evald ?g3 = {} \<and> length ys \<le> n \<and>
          g_evald g5 = g_evald ?g3 \<union> set ys \<and>
          lie_calls (g_self g5) \<le> lie_calls (g_self ?g3) + 2 * n" by simp
      with np Inr False al e2 c2 show ?thesis by auto
    next
      case True
      let ?g2u = "g2\<lparr>g_opt := sk_update_next sk (g_opt g2)\<rparr>"
      obtain x' g4 where np2: "next_point sk ?g2u = (x', g4)" by (cases "next_point sk ?g2u")
      have e4: "g_evald g4 = g_evald g"
        using next_point_evald[where sk = sk and g = ?g2u] np2 e2 by simp
      have c4: "lie_calls (g_self g4) \<le> Suc (Suc (lie_calls (g_self g)))"
        using next_point_calls[where sk = sk and g = ?g2u] np2 c2 by simp
      show ?thesis
      proof (cases x')
        case (Inl e)
        with np Inr True np2 e4 c4 show ?thesis by simp
      next
        case a': (Inr a')
        show ?thesis
        proof (cases "a' \<in> g_evald g4")
          case True
          with np Inr \<open>a \<in> g_evald g2\<close> np2 a' e4 c4 show ?thesis by simp
        next
          case False
          let ?g3 = "g4\<lparr>g_evald := insert a' (g_evald g4)\<rparr>"
          obtain ys g5 e where al: "ask_loop sk arrive (Suc r) n ?g3 = (ys, g5, e)"
            by (cases "ask_loop sk arrive (Suc r) n ?g3")
          from Suc.IH[where r = "Suc r" and g = ?g3] al
          have ih: "distinct ys \<and> set ys \<inter> g_evald ?g3 = {} \<and> length ys \<le> n \<and>
              g_evald g5 = g_evald ?g3 \<union> set ys \<and>
              lie_calls (g_self g5) \<le> lie_calls (g_self ?g3) + 2 * n" by simp
          with np Inr \<open>a \<in> g_evald g2\<close> np2 a' False al e4 c4 show ?thesis by auto
        qed
      qed
    qed
  qed
qed

text \<open>
  Claim C1, as amended. Within one call of \<^verbatim>\<open>opt_ask_and_tell\<close> (one dispatched
  batch), whatever the optimizer proposes and whatever results arrive, no point is
  yielded twice, at most \<^verbatim>\<open>tries\<close> points are yielded, and the optimizer is asked at
  most twice per iteration, so the call ends. An iteration tells the pending results and
  asks a point. A point that is not in \<^verbatim>\<open>evald\<close> is added to it and yielded, and the
  loop goes on. For a point that is in \<^verbatim>\<open>evald\<close>, \<^verbatim>\<open>update_next\<close> is called on
  the optimizer and one replacement is asked: if the replacement is in \<^verbatim>\<open>evald\<close> too,
  the generator ends there without an exception and yields nothing more; otherwise the
  replacement is added and yielded, and the loop goes on. An exception of an ask ends
  the generator.
\<close>

theorem opt_ask_and_tell_no_repeat:
  "(case opt_ask_and_tell sk arrive jobs tries h s of
      (ys, (h', s'), e) \<Rightarrow>
        distinct ys \<and> length ys \<le> tries \<and> lie_calls s' \<le> lie_calls s + 2 * tries) \<and>
   (case next_point sk (tell_pending sk (arrive r) g) of
      (Inl x, g2) \<Rightarrow> ask_loop sk arrive r (Suc n) g = ([], g2, Some x)
    | (Inr a, g2) \<Rightarrow>
        (a \<notin> g_evald g2 \<longrightarrow>
           ask_loop sk arrive r (Suc n) g =
             (case ask_loop sk arrive (Suc r) n (g2\<lparr>g_evald := insert a (g_evald g2)\<rparr>) of
                (ys, g5, e) \<Rightarrow> (a # ys, g5, e))) \<and>
        (a \<in> g_evald g2 \<longrightarrow>
           (case next_point sk (g2\<lparr>g_opt := sk_update_next sk (g_opt g2)\<rparr>) of
              (Inl x, g4) \<Rightarrow> ask_loop sk arrive r (Suc n) g = ([], g4, Some x)
            | (Inr a', g4) \<Rightarrow>
                (a' \<in> g_evald g4 \<longrightarrow> ask_loop sk arrive r (Suc n) g = ([], g4, None)) \<and>
                (a' \<notin> g_evald g4 \<longrightarrow>
                   ask_loop sk arrive r (Suc n) g =
                     (case ask_loop sk arrive (Suc r) n (g4\<lparr>g_evald := insert a' (g_evald g4)\<rparr>) of
                        (ys, g5, e) \<Rightarrow> (a' # ys, g5, e))))))"
proof -
  have first: "(case opt_ask_and_tell sk arrive jobs tries h s of
      (ys, (h', s'), e) \<Rightarrow>
        distinct ys \<and> length ys \<le> tries \<and> lie_calls s' \<le> lie_calls s + 2 * tries)"
  proof (cases "self_opt s")
    case None
    then show ?thesis by (simp add: opt_ask_and_tell_def)
  next
    case (Some opt0)
    let ?h1 = "h\<lparr>list_of := (list_of h)(next_list h := []), next_list := Suc (next_list h)\<rparr>"
    let ?g0 = "\<lparr>g_vals = next_list h, g_to_ask = [], g_evald = {}, g_opt = opt0, g_self = s,
                 g_store = ?h1\<rparr>"
    obtain ys g e where al: "ask_loop sk arrive 0 tries ?g0 = (ys, g, e)"
      by (cases "ask_loop sk arrive 0 tries ?g0")
    from ask_loop_distinct[where sk = sk and arrive = arrive and r = 0 and n = tries and g = ?g0] al
    have "distinct ys \<and> length ys \<le> tries \<and> lie_calls (g_self g) \<le> lie_calls s + 2 * tries"
      by simp
    with Some al show ?thesis by (simp add: opt_ask_and_tell_def Let_def)
  qed
  obtain x g2 where np: "next_point sk (tell_pending sk (arrive r) g) = (x, g2)"
    by (cases "next_point sk (tell_pending sk (arrive r) g)")
  obtain x' g4 where np2: "next_point sk (g2\<lparr>g_opt := sk_update_next sk (g_opt g2)\<rparr>) = (x', g4)"
    by (cases "next_point sk (g2\<lparr>g_opt := sk_update_next sk (g_opt g2)\<rparr>)")
  have second: "(case next_point sk (tell_pending sk (arrive r) g) of
      (Inl x, g2) \<Rightarrow> ask_loop sk arrive r (Suc n) g = ([], g2, Some x)
    | (Inr a, g2) \<Rightarrow>
        (a \<notin> g_evald g2 \<longrightarrow>
           ask_loop sk arrive r (Suc n) g =
             (case ask_loop sk arrive (Suc r) n (g2\<lparr>g_evald := insert a (g_evald g2)\<rparr>) of
                (ys, g5, e) \<Rightarrow> (a # ys, g5, e))) \<and>
        (a \<in> g_evald g2 \<longrightarrow>
           (case next_point sk (g2\<lparr>g_opt := sk_update_next sk (g_opt g2)\<rparr>) of
              (Inl x, g4) \<Rightarrow> ask_loop sk arrive r (Suc n) g = ([], g4, Some x)
            | (Inr a', g4) \<Rightarrow>
                (a' \<in> g_evald g4 \<longrightarrow> ask_loop sk arrive r (Suc n) g = ([], g4, None)) \<and>
                (a' \<notin> g_evald g4 \<longrightarrow>
                   ask_loop sk arrive r (Suc n) g =
                     (case ask_loop sk arrive (Suc r) n (g4\<lparr>g_evald := insert a' (g_evald g4)\<rparr>) of
                        (ys, g5, e) \<Rightarrow> (a' # ys, g5, e))))))"
    using np np2 by (cases x; cases x') simp_all
  from first second show ?thesis by (rule conjI)
qed

text \<open>
  The theorem on an optimizer that proposes the same point every time, with three tries:
  the point is yielded once, the second iteration asks it and its replacement and stops.
  And on an optimizer whose proposal changes with \<^verbatim>\<open>update_next\<close>: every repeated
  point is replaced by a new one, and three points are yielded after two calls of
  \<^verbatim>\<open>update_next\<close> and five asks.
\<close>

theorem opt_ask_and_tell_no_repeat_witness:
  "(case opt_ask_and_tell example_sk (\<lambda>r. []) 2 3 example_store example_state of
      (ys, (h', s'), e) \<Rightarrow> ys = [[PInt 1]] \<and> e = None \<and> lie_calls s' = 3) \<and>
   (case opt_ask_and_tell counting_sk (\<lambda>r. []) 2 3 example_store example_state of
      (ys, (h', s'), e) \<Rightarrow>
        ys = [[PInt 0], [PInt 1], [PInt 2]] \<and> e = None \<and> lie_calls s' = 5 \<and>
        map_option models (self_opt s') = Some [(), ()]) \<and>
   fst (ask_loop counting_sk (\<lambda>r. []) 0 (Suc 1)
          \<lparr>g_vals = 1, g_to_ask = [], g_evald = {[PInt 0]}, g_opt = example_opt,
           g_self = example_state, g_store = example_store\<rparr>) = [[PInt 1], [PInt 2]] \<and>
   ask_loop example_sk (\<lambda>r. []) 0 (Suc 1)
          \<lparr>g_vals = 1, g_to_ask = [], g_evald = {[PInt 1]}, g_opt = example_opt,
           g_self = example_state, g_store = example_store\<rparr>
     = ([], \<lparr>g_vals = 1, g_to_ask = [], g_evald = {[PInt 1]}, g_opt = example_opt,
             g_self = example_state\<lparr>lie_calls := 2\<rparr>, g_store = example_store\<rparr>, None)"
  using opt_ask_and_tell_no_repeat[where sk = example_sk and arrive = "\<lambda>r. []" and jobs = 2
      and tries = 3 and h = example_store and s = example_state and r = 0 and n = 1
      and g = "\<lparr>g_vals = 1, g_to_ask = [], g_evald = {[PInt 1]}, g_opt = example_opt,
           g_self = example_state, g_store = example_store\<rparr>"]
    opt_ask_and_tell_no_repeat[where sk = counting_sk and arrive = "\<lambda>r. []" and jobs = 2
      and tries = 3 and h = example_store and s = example_state and r = 0 and n = 1
      and g = "\<lparr>g_vals = 1, g_to_ask = [], g_evald = {[PInt 0]}, g_opt = example_opt,
           g_self = example_state, g_store = example_store\<rparr>"]
  by (simp add: opt_ask_and_tell_def tell_pending_def next_point_def ask_one_def
      numeral_3_eq_3 counting_sk_def example_sk_def example_state_def example_store_def
      example_opt_def Let_def)

text \<open>
  Claim C1 as stated fails across batches, since \<^verbatim>\<open>evald\<close> is a local variable of
  the generator. The first batch yields the point \<^verbatim>\<open>(1,)\<close>; its result, with the
  loss 1/2, arrives; the second batch tells it to the optimizer and then yields the same
  point again.
\<close>

theorem evald_is_reset_every_batch:
  "(case opt_ask_and_tell example_sk (\<lambda>r. []) 2 1
           (example_store\<lparr>dict_of := (\<lambda>a. example_trial (1 / 2) 1)\<rparr>) example_state of
      (ys1, (h1, s1), e1) \<Rightarrow>
        ys1 = [[PInt 1]] \<and> e1 = None \<and>
        (case opt_ask_and_tell example_sk (\<lambda>r. if r = 0 then [0] else []) 2 1 h1 s1 of
           (ys2, (h2, s2), e2) \<Rightarrow>
             ys2 = [[PInt 1]] \<and> e2 = None \<and>
             map_option Xi (self_opt s2) = Some [[PInt 1]] \<and>
             map_option yi (self_opt s2) = Some [1 / 2]))"
  by (simp add: opt_ask_and_tell_def tell_pending_def next_point_def ask_one_def
      filter_void_losses_def read_list_def params_Xi_def
      example_sk_def example_state_def example_store_def example_opt_def example_trial_def
      VOID_LOSS_def Let_def)

subsection \<open>Restored optimizers of another count\<close>

lemma set_update_subset: "set (AList.update k v al) \<subseteq> insert (k, v) (set al)"
  by (induction al) auto

lemma fold_update_all_empty:
  "\<forall>p\<in>set ps. snd p = [] \<Longrightarrow> \<forall>p\<in>set acc. snd p = [] \<Longrightarrow>
   \<forall>p\<in>set (fold (\<lambda>(k, v) d. AList.update k v d) ps acc). snd p = []"
proof (induction ps arbitrary: acc)
  case Nil
  then show ?case by simp
next
  case (Cons q ps)
  obtain k v where q: "q = (k, v)" by (cases q)
  have "\<forall>p\<in>set (AList.update k v acc). snd p = []"
    using set_update_subset[of k v acc] Cons.prems q by auto
  with Cons.IH[of "AList.update k v acc"] Cons.prems(1) q show ?case by simp
qed

lemma reconstruct_empty:
  "\<forall>p\<in>set X. snd p = [] \<Longrightarrow> reconstruct X Y c = Inr []"
  by (induction X) auto



lemma reconstruct_fresh:
  "reconstruct (dict_update [] (dict_of_pairs (map (\<lambda>r. (r, [])) rs'))) Y c = Inr []"
proof -
  have "\<forall>p\<in>set (dict_of_pairs (map (\<lambda>r. (r, [])) rs')). snd p = ([] :: point list)"
    unfolding dict_of_pairs_def by (rule fold_update_all_empty) auto
  then have "\<forall>p\<in>set (dict_update [] (dict_of_pairs (map (\<lambda>r. (r, [])) rs'))). snd p = ([] :: point list)"
    unfolding dict_update_def by (rule fold_update_all_empty) simp
  then show ?thesis by (rule reconstruct_empty)
qed

lemma reconstruct_fresh_comp:
  "reconstruct (dict_update [] (dict_of_pairs (map ((\<lambda>r. (r, [])) \<circ> f) xs))) Y c = Inr []"
  using reconstruct_fresh[of "map f xs" Y c] by simp







subsection \<open>The estimate of the search-space size\<close>































end
